theory Spec2Isabelle
  imports Complex_Main
begin

section \<open>Data model\<close>

text \<open>
  A frame is a 2-D array of intensities, stored row by row; a cube is the ordered
  sequence of frames. The source computes on float64 arrays; the embedding computes on
  the reals, with a NaN written out where the source can produce one.
\<close>

type_synonym frame = "real list list"
type_synonym cube = "frame list"

datatype error = ValueError | TypeError | Exception | ZeroDivisionError | AttributeError
  | IndexError | RuntimeError

section \<open>Convolution helpers (mustard/algo.py)\<close>

text \<open>
  The filtering done by \<^verbatim>\<open>conv2d(..., padding='same')\<close> on one image with one kernel:
  the cross-correlation of the frame with the kernel, the frame padded with zeros.
\<close>

definition px :: "frame \<Rightarrow> int \<Rightarrow> int \<Rightarrow> real" where
  "px f i j =
     (if 0 \<le> i \<and> i < int (length f) \<and> 0 \<le> j \<and> j < int (length (f ! nat i))
      then f ! nat i ! nat j else 0)"

definition conv2d_same :: "frame \<Rightarrow> frame \<Rightarrow> frame" where
  "conv2d_same f K =
     (let k = length K; p = int ((k - 1) div 2) in
      map (\<lambda>i. map (\<lambda>j.
             (\<Sum>u \<leftarrow> [0..<k]. \<Sum>v \<leftarrow> [0..<length (K ! u)].
                K ! u ! v * px f (int i + int u - p) (int j + int v - p)))
           [0..<length (f ! i)])
          [0..<length f])"




text \<open>
  A torch tensor as the helpers see it: its dtype, its shape and its entries in row-major
  order (as many as the product of the shape). Entries of either dtype are reals here.
\<close>

datatype dtype = Float32 | Float64

record tensor =
  t_dtype :: dtype
  t_shape :: "nat list"
  t_data :: "real list"











definition sobel_y :: frame where
  "sobel_y = [[1, 0, -1],
              [2, 0, -2],
              [1, 0, -1]]"

definition sobel_x :: frame where
  "sobel_x = [[1, 2, 1],
              [0, 0, 0],
              [-1, -2, -1]]"

text \<open>
  \<^verbatim>\<open>sobel_tensor_conv\<close> reshapes its map to one image of one channel and filters it
  with a float64 kernel; the estimator applies it to its float64 maps only, given here as
  frames.
\<close>

definition sobel_tensor_conv :: "frame \<Rightarrow> string \<Rightarrow> error + frame" where
  "sobel_tensor_conv tensor axis =
     (if axis = ''y'' then Inr (conv2d_same tensor sobel_y)
      else if axis = ''x'' then Inr (conv2d_same tensor sobel_x)
      else Inl ValueError)"

section \<open>Angle reduction of the rotation primitive (mustard/algo.py)\<close>

text \<open>Python's \<^verbatim>\<open>x % y\<close> on floats, for a positive divisor.\<close>

definition fmod :: "real \<Rightarrow> real \<Rightarrow> real" where
  "fmod x y = x - y * of_int \<lfloor>x / y\<rfloor>"

text \<open>\<^verbatim>\<open>np.rint\<close>: the nearest integer, a tie going to the even one.\<close>

definition rint :: "real \<Rightarrow> int" where
  "rint x =
     (let f = \<lfloor>x\<rfloor>; d = x - of_int f in
      if d < 1 / 2 then f
      else if d > 1 / 2 then f + 1
      else if even f then f else f + 1)"

text \<open>The two \<^verbatim>\<open>while\<close> loops that bring the angle into \<open>[0, 360]\<close>.\<close>

lemma wrap_neg_decr:
  "angle < 0 \<Longrightarrow> nat \<lceil>- (angle + 360) / 360\<rceil> < nat \<lceil>- angle / 360\<rceil>"
  for angle :: real
proof -
  assume "angle < 0"
  then have p: "0 < \<lceil>- angle / 360\<rceil>" by simp
  have "- (angle + 360) / 360 = - angle / 360 - 1" by (simp add: field_simps)
  then have "\<lceil>- (angle + 360) / 360\<rceil> = \<lceil>- angle / 360\<rceil> - 1"
    by (simp only: ceiling_diff_one)
  with p show ?thesis by linarith
qed

lemma wrap_pos_decr:
  "360 < angle \<Longrightarrow> nat \<lceil>(angle - 360) / 360\<rceil> < nat \<lceil>angle / 360\<rceil>"
  for angle :: real
proof -
  assume "360 < angle"
  then have "1 < angle / 360" by simp
  then have p: "1 < \<lceil>angle / 360\<rceil>" by (simp add: less_ceiling_iff)
  have "(angle - 360) / 360 = angle / 360 - 1" by (simp add: field_simps)
  then have "\<lceil>(angle - 360) / 360\<rceil> = \<lceil>angle / 360\<rceil> - 1"
    by (simp only: ceiling_diff_one)
  with p show ?thesis by linarith
qed

function wrap_neg :: "real \<Rightarrow> real" where
  "wrap_neg angle = (if angle < 0 then wrap_neg (angle + 360) else angle)"
  by pat_completeness auto
termination
  by (relation "measure (\<lambda>a. nat \<lceil>- a / 360\<rceil>)")
    (simp_all only: wf_measure in_measure wrap_neg_decr)

function wrap_pos :: "real \<Rightarrow> real" where
  "wrap_pos angle = (if angle > 360 then wrap_pos (angle - 360) else angle)"
  by pat_completeness auto
termination
  by (relation "measure (\<lambda>a. nat \<lceil>a / 360\<rceil>)")
    (simp_all only: wf_measure in_measure wrap_pos_decr)

declare wrap_neg.simps [simp del] wrap_pos.simps [simp del]

text \<open>
  Lines 254-267 of \<^verbatim>\<open>tensor_rotate_fft\<close>: the number of quarter turns handed to
  \<^verbatim>\<open>torch.rot90\<close> and the residual angle handed to the three shears. In the
  \<^verbatim>\<open>else\<close> branch the source copies the tensor, which is no quarter turn at all.
\<close>

definition angle_reduction :: "real \<Rightarrow> int \<times> real" where
  "angle_reduction angle0 =
     (let angle = wrap_pos (wrap_neg angle0) in
      if angle > 45 then
        (let dangle = fmod angle 90;
             dangle = (if dangle > 45 then - (90 - dangle) else dangle);
             nangle = rint (angle / 90)
         in (nangle, dangle))
      else (0, angle))"

section \<open>Frame weights from the rotation angles (compute_rot_weight)\<close>

text \<open>
  \<^verbatim>\<open>np.median\<close> of a 1-D array; of an empty array it is NaN, written \<open>None\<close>.
\<close>

definition np_median :: "real list \<Rightarrow> real option" where
  "np_median xs =
     (let n = length xs; s = sort xs in
      if n = 0 then None
      else if odd n then Some (s ! (n div 2))
      else Some ((s ! (n div 2 - 1) + s ! (n div 2)) / 2))"

text \<open>A float comparison against a value that may be NaN: false on NaN.\<close>

definition lt_nan :: "real \<Rightarrow> real option \<Rightarrow> bool" where
  "lt_nan x m = (case m of None \<Rightarrow> False | Some y \<Rightarrow> x < y)"

definition cap_max_rot :: "real option \<Rightarrow> real option" where
  "cap_max_rot m = (case m of None \<Rightarrow> None | Some y \<Rightarrow> if y > 1 then Some 1 else Some y)"

subsection \<open>The copy in mustard/mustard.py\<close>

function neighbours_after :: "real list \<Rightarrow> nat \<Rightarrow> real option \<Rightarrow> nat \<Rightarrow> nat \<Rightarrow> real \<Rightarrow> nat" where
  "neighbours_after angs id_ang max_rot tmp_id nb_neighbours detla_ang =
     (if lt_nan detla_ang max_rot \<and> int tmp_id < int (length angs) - 1
      then neighbours_after angs id_ang max_rot (tmp_id + 1) (nb_neighbours + 1)
             (detla_ang + \<bar>angs ! (tmp_id + 1) - angs ! id_ang\<bar>)
      else nb_neighbours)"
  by pat_completeness auto
termination
  by (relation "measure (\<lambda>(angs, id_ang, max_rot, tmp_id, nb, d). length angs - tmp_id)") auto

function neighbours_before :: "real list \<Rightarrow> nat \<Rightarrow> real option \<Rightarrow> nat \<Rightarrow> nat \<Rightarrow> real \<Rightarrow> nat" where
  "neighbours_before angs id_ang max_rot tmp_id nb_neighbours detla_ang =
     (if lt_nan detla_ang max_rot \<and> tmp_id > 0
      then neighbours_before angs id_ang max_rot (tmp_id - 1) (nb_neighbours + 1)
             (detla_ang + \<bar>angs ! (tmp_id - 1) - angs ! id_ang\<bar>)
      else nb_neighbours)"
  by pat_completeness auto
termination
  by (relation "measure (\<lambda>(angs, id_ang, max_rot, tmp_id, nb, d). tmp_id)") auto

definition frame_weight :: "real list \<Rightarrow> real option \<Rightarrow> nat \<Rightarrow> real" where
  "frame_weight angs max_rot id_ang =
     (let nb_neighbours = neighbours_after angs id_ang max_rot id_ang 0 0;
          w_1 = (if nb_neighbours > 1
                 then (1 + \<bar>angs ! id_ang - angs ! (id_ang + 1)\<bar>) / real nb_neighbours else 1);
          nb_neighbours = neighbours_before angs id_ang max_rot id_ang 0 0;
          w_2 = (if nb_neighbours > 1
                 then (1 + \<bar>angs ! id_ang - angs ! (id_ang - 1)\<bar>) / real nb_neighbours else 1)
      in (w_2 + w_1) / 2)"

definition compute_rot_weight :: "real list \<Rightarrow> real list" where
  "compute_rot_weight angs =
     (let nb_frm = length angs;
          max_rot = cap_max_rot (np_median (map2 (\<lambda>a b. \<bar>a - b\<bar>) (butlast angs) (tl angs)));
          ang_weight = map (frame_weight angs max_rot) [0..<nb_frm]
      in ang_weight)"


subsection \<open>The copy in neo_mayo/neo_mayo.py\<close>

function nm_neighbours_after :: "real list \<Rightarrow> nat \<Rightarrow> real option \<Rightarrow> nat \<Rightarrow> nat \<Rightarrow> real \<Rightarrow> nat" where
  "nm_neighbours_after angs id_ang max_rot tmp_id nb_neighbours detla_ang =
     (if lt_nan detla_ang max_rot \<and> int tmp_id < int (length angs) - 1
      then nm_neighbours_after angs id_ang max_rot (tmp_id + 1) (nb_neighbours + 1)
             (detla_ang + \<bar>angs ! (tmp_id + 1) - angs ! id_ang\<bar>)
      else nb_neighbours)"
  by pat_completeness auto
termination
  by (relation "measure (\<lambda>(angs, id_ang, max_rot, tmp_id, nb, d). length angs - tmp_id)") auto

function nm_neighbours_before :: "real list \<Rightarrow> nat \<Rightarrow> real option \<Rightarrow> nat \<Rightarrow> nat \<Rightarrow> real \<Rightarrow> nat" where
  "nm_neighbours_before angs id_ang max_rot tmp_id nb_neighbours detla_ang =
     (if lt_nan detla_ang max_rot \<and> tmp_id > 0
      then nm_neighbours_before angs id_ang max_rot (tmp_id - 1) (nb_neighbours + 1)
             (detla_ang + \<bar>angs ! (tmp_id - 1) - angs ! id_ang\<bar>)
      else nb_neighbours)"
  by pat_completeness auto
termination
  by (relation "measure (\<lambda>(angs, id_ang, max_rot, tmp_id, nb, d). tmp_id)") auto

definition nm_frame_weight :: "real list \<Rightarrow> real option \<Rightarrow> nat \<Rightarrow> real" where
  "nm_frame_weight angs max_rot id_ang =
     (let nb_neighbours = nm_neighbours_after angs id_ang max_rot id_ang 0 0;
          w_1 = (if nb_neighbours > 1
                 then (1 + \<bar>angs ! id_ang - angs ! (id_ang + 1)\<bar>) / real nb_neighbours else 1);
          nb_neighbours = nm_neighbours_before angs id_ang max_rot id_ang 0 0;
          w_2 = (if nb_neighbours > 1
                 then (1 + \<bar>angs ! id_ang - angs ! (id_ang - 1)\<bar>) / real nb_neighbours else 1)
      in (w_2 + w_1) / 2)"

text \<open>
  The last line divides \<^verbatim>\<open>nb_frm\<close> by \<^verbatim>\<open>sum(ang_weight)\<close>; for an empty angle list
  both are the integer 0 and Python raises \<^verbatim>\<open>ZeroDivisionError\<close>.
\<close>

definition nm_compute_rot_weight :: "real list \<Rightarrow> error + real list" where
  "nm_compute_rot_weight angs =
     (let nb_frm = length angs;
          max_rot = cap_max_rot (np_median (map2 (\<lambda>a b. \<bar>a - b\<bar>) (butlast angs) (tl angs)));
          ang_weight = map (nm_frame_weight angs max_rot) [0..<nb_frm]
      in if ang_weight = [] then Inl ZeroDivisionError
         else Inr (map (\<lambda>w. w * (real nb_frm / sum_list ang_weight)) ang_weight))"


declare neighbours_after.simps [simp del] neighbours_before.simps [simp del]
  nm_neighbours_after.simps [simp del] nm_neighbours_before.simps [simp del]


section \<open>Strings\<close>

text \<open>\<^verbatim>\<open>str.capitalize\<close> on ASCII letters.\<close>

definition upper_char :: "char \<Rightarrow> char" where
  "upper_char c =
     (let n = (of_char c :: nat) in if 97 \<le> n \<and> n \<le> 122 then char_of (n - 32) else c)"

definition lower_char :: "char \<Rightarrow> char" where
  "lower_char c =
     (let n = (of_char c :: nat) in if 65 \<le> n \<and> n \<le> 90 then char_of (n + 32) else c)"

definition capitalize :: "string \<Rightarrow> string" where
  "capitalize s = (case s of [] \<Rightarrow> [] | c # cs \<Rightarrow> upper_char c # map lower_char cs)"


section \<open>Arrays\<close>

text \<open>
  Element-wise operations on frames of equal shape, and \<^verbatim>\<open>torch.sum\<close> over all the
  pixels of a frame. Maps and masks carry a leading axis of length one in the source
  (\<^verbatim>\<open>unsqueeze\<close>); the embedding leaves it out.
\<close>

definition ew :: "(real \<Rightarrow> real \<Rightarrow> real) \<Rightarrow> frame \<Rightarrow> frame \<Rightarrow> frame" where
  "ew f A B = map2 (map2 f) A B"

definition tsum :: "frame \<Rightarrow> real" where
  "tsum A = sum_list (map sum_list A)"

definition sq :: "frame \<Rightarrow> frame" where
  "sq A = map (map (\<lambda>v. v ^ 2)) A"

definition one_minus :: "frame \<Rightarrow> frame" where
  "one_minus A = map (map (\<lambda>v. 1 - v)) A"

definition shape_of :: "frame \<Rightarrow> nat \<times> nat" where
  "shape_of A = (length A, case A of [] \<Rightarrow> 0 | r # _ \<Rightarrow> length r)"

definition ones :: "nat \<times> nat \<Rightarrow> frame" where
  "ones s = replicate (fst s) (replicate (snd s) 1)"

text \<open>\<^verbatim>\<open>np.delete(arr, obj, 0)\<close>: an index outside the array raises.\<close>

definition np_delete :: "'a list \<Rightarrow> int list \<Rightarrow> error + 'a list" where
  "np_delete xs obj =
     (let n = int (length xs) in
      if list_ex (\<lambda>i. i < - n \<or> n \<le> i) obj then Inl IndexError
      else Inr (map snd (filter (\<lambda>(j, x). int j \<notin> set (map (\<lambda>i. if i < 0 then i + n else i) obj))
                           (enumerate 0 xs))))"

section \<open>The forward model (mustard/model.py)\<close>

text \<open>
  Modelled from the spec: the class \<^verbatim>\<open>model_ADI\<close> of mustard/model.py, which is not
  among the sources. Per the spec the model stores the rotation-angle list and the masks
  at construction and exposes a frame shape and a frame count. Its constructor is called
  with the angle list, the coronagraph mask and the PSF only, never with the cube, so
  the frame count is the number of angles and the frame shape is that of the mask.
\<close>

record model_ADI =
  rot_angles :: "real list"
  model_coro :: frame
  model_psf :: "frame option"
  model_nb_frame :: nat
  frame_shape :: "nat \<times> nat"

definition model_ADI :: "real list \<Rightarrow> frame \<Rightarrow> frame option \<Rightarrow> model_ADI" where
  "model_ADI angles cmask psf =
     \<lparr>rot_angles = angles, model_coro = cmask, model_psf = psf,
      model_nb_frame = length angles, frame_shape = shape_of cmask\<rparr>"

section \<open>The estimator object (mustard/mustard.py)\<close>

text \<open>
  The closures stored in \<^verbatim>\<open>self.smooth\<close> and \<^verbatim>\<open>self.regul\<close> read
  \<^verbatim>\<open>self.coroR\<close>, \<^verbatim>\<open>self.xmax\<close>, \<^verbatim>\<open>self.smooth\<close> and \<^verbatim>\<open>self.p_L\<close> when
  they are called, so each is recorded by the branch that created it and evaluated
  against the object (\<open>smooth_apply\<close>, \<open>regul_apply\<close>). The closures stored in
  \<^verbatim>\<open>self.regul2\<close> capture local variables only and are kept as functions.
\<close>

datatype smooth_fn = Smooth_with_edges real | Smooth | Peak_preservation | L1

datatype regul_fn = Regul_X_and_L | Regul_X

datatype pupil_arg = Pupil_None | Pupil_edge | Pupil_radius real | Pupil_other

record mustard_estimator =
  shape :: "nat \<times> nat"
  nb_frame :: nat
  L0x0 :: "(frame \<times> frame) option"
  mask_R2 :: "frame option"
  name :: string
  savedir :: string
  coro :: frame
  coroR :: frame
  halo_fit_mask :: frame
  ang_shift :: real
  science_data :: cube
  model :: model_ADI
  ang_weight :: "real list"
  config :: "string option list"
  smooth :: "smooth_fn option"
  xmax :: "real option"
  p_L :: "real option"
  regul :: "regul_fn option"
  regul2 :: "(frame \<Rightarrow> frame \<Rightarrow> frame \<Rightarrow> real) option"
  science_data_ori :: "cube option"
  speckles :: "frame option"
  ambiguities :: "frame option"
  stellar_halo :: "frame option"

text \<open>
  \<open>mask_R2\<close> is \<^verbatim>\<open>self.mask\<close>; \<open>None\<close> stands for its default, the scalar 1.
  An attribute that does not exist yet is \<open>None\<close> as well.
\<close>

subsection \<open>configR1\<close>

definition configR1 ::
  "mustard_estimator \<Rightarrow> string \<Rightarrow> bool \<Rightarrow> real \<Rightarrow> real \<Rightarrow> error + mustard_estimator" where
  "configR1 self mode smoothL p_L_arg epsi =
     (let self =
        (if mode = ''smooth_with_edges'' then self\<lparr>smooth := Some (Smooth_with_edges epsi)\<rparr>
         else if mode = ''smooth'' then self\<lparr>smooth := Some Smooth\<rparr>
         else if mode = ''peak_preservation''
           then self\<lparr>xmax := Some 1, smooth := Some Peak_preservation\<rparr>
         else if mode = ''l1'' then self\<lparr>smooth := Some L1\<rparr>
         else self);
          self = self\<lparr>p_L := Some p_L_arg\<rparr>
      in if smoothL then Inr (self\<lparr>regul := Some Regul_X_and_L\<rparr>)
         else Inr (self\<lparr>regul := Some Regul_X\<rparr>))"

subsection \<open>configR2\<close>

text \<open>
  \<open>Msk\<close> is \<open>None\<close> or an array; \<open>convert_to_mask\<close> is imported from mustard/algo.py but
  not defined there, and is a parameter. The \<^verbatim>\<open>UserWarning\<close> and the FITS file
  written when \<open>save\<close> is set are effects outside the object and are left out.
\<close>

definition configR2 ::
  "(frame option \<Rightarrow> frame option) \<Rightarrow> mustard_estimator \<Rightarrow> frame option \<Rightarrow> string \<Rightarrow> string \<Rightarrow>
     bool \<Rightarrow> real \<Rightarrow> bool \<Rightarrow> error + mustard_estimator" where
  "configR2 convert_to_mask self Msk0 mode0 penaliz0 invert p_w save =
     (let (Msk, mode) = (if mode0 = ''pdi'' then (convert_to_mask Msk0, ''mask'') else (Msk0, mode0)) in
      if mode \<noteq> ''l1'' \<and>
         \<not> (case Msk of None \<Rightarrow> False | Some M \<Rightarrow> shape_of M = frame_shape (model self))
      then Inl TypeError
      else
        let penaliz = capitalize penaliz0; rM = coro self in
        if penaliz \<notin> set [''X'', ''L'', ''Both'', ''B'', ''Tb'', ''Trueboth''] then Inl Exception
        else
          let r =
            (if mode = ''dist'' then
               (let self = self\<lparr>mask_R2 := Msk\<rparr>; sign = (if invert then - 1 else 1) in
                if penaliz = ''X''
                  then Inr (self\<lparr>regul2 := Some (\<lambda>X L M. tsum (ew (*) rM (sq (ew (-) M X))))\<rparr>)
                else if penaliz = ''L''
                  then Inr (self\<lparr>regul2 := Some (\<lambda>X L M. tsum (ew (*) rM (sq (ew (-) M X))))\<rparr>)
                else if penaliz \<in> set [''Both'', ''B'']
                  then Inr (self\<lparr>regul2 := Some (\<lambda>X L M.
                         sign * (tsum (ew (*) rM (sq (ew (-) M X))) -
                                 tsum (ew (*) rM (sq (ew (-) M L)))))\<rparr>)
                else Inr self)
             else if mode = ''mask'' then
               (case Msk of None \<Rightarrow> Inl TypeError
                | Some M0 \<Rightarrow>
                   let mx = Max (set (concat M0));
                       Mn = map (map (\<lambda>v. v / mx)) M0;
                       self = self\<lparr>mask_R2 := Some (if invert then one_minus Mn else Mn)\<rparr> in
                   if penaliz = ''X''
                     then Inr (self\<lparr>regul2 := Some (\<lambda>X L M. tsum (ew (*) rM (sq (ew (*) M X))))\<rparr>)
                   else if penaliz = ''L''
                     then Inr (self\<lparr>regul2 := Some (\<lambda>X L M.
                            tsum (ew (*) rM (sq (ew (*) (one_minus M) L))))\<rparr>)
                   else if penaliz \<in> set [''Both'', ''B'']
                     then Inr (self\<lparr>regul2 := Some (\<lambda>X L M.
                            tsum (ew (*) rM (sq (ew (*) M X))) +
                            (tsum M) ^ 2 / (tsum (one_minus M)) ^ 2 *
                            tsum (ew (*) rM (sq (ew (*) (one_minus M) L))))\<rparr>)
                   else if penaliz \<in> set [''Trueboth'', ''TB'']
                     then Inr (self\<lparr>regul2 := Some (\<lambda>X L M.
                            tsum (sq (ew (*) M X)) + p_w * tsum (sq (ew (*) rM L)))\<rparr>)
                   else Inr self)
             else if mode = ''l1'' then
               (let sign = (if invert then - 1 else 1) in
                if penaliz = ''X'' then Inr (self\<lparr>regul2 := Some (\<lambda>X L M. tsum (sq X))\<rparr>)
                else if penaliz = ''L'' then Inr (self\<lparr>regul2 := Some (\<lambda>X L M. tsum (sq L))\<rparr>)
                else if penaliz \<in> set [''Both'', ''B'']
                  then Inr (self\<lparr>regul2 := Some (\<lambda>X L M. sign * (tsum (sq X) - tsum (sq L)))\<rparr>)
                else if penaliz \<in> set [''Trueboth'', ''TB'']
                  then Inr (self\<lparr>regul2 := Some (\<lambda>X L M.
                         sign * (tsum (sq X) + p_w * tsum (sq L)))\<rparr>)
                else Inr self)
             else Inl Exception)
          in case r of Inl e \<Rightarrow> Inl e
             | Inr self \<Rightarrow>
                 let R2_name = mode @ '' on '' @ penaliz;
                     R2_name = R2_name @ (if invert then '' inverted'' else '''')
                 in Inr (self\<lparr>config := (config self)[1 := Some R2_name]\<rparr>))"

subsection \<open>Construction\<close>

definition normlizangle :: "real list \<Rightarrow> real list" where
  "normlizangle angles = map (\<lambda>a. fmod (if a < 0 then a + 360 else a) 360) angles"

text \<open>
  \<^verbatim>\<open>find_nearest\<close>: \<^verbatim>\<open>argmin\<close> of an empty array raises \<^verbatim>\<open>ValueError\<close>; the
  value searched for is a median, NaN (\<open>None\<close>) only for an empty array.
\<close>

definition find_nearest :: "real list \<Rightarrow> real option \<Rightarrow> error + real" where
  "find_nearest array v =
     (case (array, v) of
        ([], _) \<Rightarrow> Inl ValueError
      | (_, None) \<Rightarrow> Inl ValueError
      | (_, Some x) \<Rightarrow> Inr (arg_min_list (\<lambda>a. \<bar>a - x\<bar>) array))"

text \<open>
  \<^verbatim>\<open>mustard_estimator.__init__\<close> without the spectral option (\<^verbatim>\<open>scale=None\<close>),
  in the order of the source: the bad frames are removed (lines 116-119), the pupil
  masks are chosen (lines 131-139), and the object is filled in (lines 122-170).
  \<open>circle\<close> comes from mustard/utils.py, which is not among the sources, and is a
  parameter. With \<^verbatim>\<open>pupil=None\<close> the variable \<^verbatim>\<open>pupilR\<close> stays \<^verbatim>\<open>None\<close> and the
  product at line 143 raises \<^verbatim>\<open>TypeError\<close>. The statement at line 155 raises a plain
  string, which Python turns into \<^verbatim>\<open>TypeError\<close>.
\<close>

definition remove_badframes ::
  "cube \<Rightarrow> real list \<Rightarrow> int list option \<Rightarrow> error + (cube \<times> real list)" where
  "remove_badframes science_data0 angles0 Badframes =
     (case Badframes of
        None \<Rightarrow> Inr (science_data0, angles0)
      | Some bf \<Rightarrow>
          (case np_delete science_data0 bf of
             Inl e \<Rightarrow> Inl e
           | Inr sd \<Rightarrow>
               (case np_delete angles0 bf of
                  Inl e \<Rightarrow> Inl e
                | Inr an \<Rightarrow> Inr (sd, an))))"

definition pupil_masks ::
  "(nat \<times> nat \<Rightarrow> real \<Rightarrow> frame) \<Rightarrow> nat \<times> nat \<Rightarrow> pupil_arg \<Rightarrow> error + (frame \<times> frame)" where
  "pupil_masks circle shp pupil =
     (case pupil of
        Pupil_None \<Rightarrow> Inl TypeError
      | Pupil_edge \<Rightarrow> Inr (circle shp (real (fst shp) / 2), circle shp (real (fst shp) / 2 - 2))
      | Pupil_radius r \<Rightarrow> Inr (circle shp r, circle shp r)
      | Pupil_other \<Rightarrow> Inl ValueError)"

definition new_estimator ::
  "nat \<times> nat \<Rightarrow> cube \<Rightarrow> string \<Rightarrow> frame \<Rightarrow> frame \<Rightarrow> frame \<Rightarrow> real \<Rightarrow> model_ADI \<Rightarrow>
     frame option \<Rightarrow> mustard_estimator" where
  "new_estimator shp sd sdir coro_mask coroR_mask hfm shift mdl psf =
     \<lparr>shape = shp, nb_frame = length sd, L0x0 = None, mask_R2 = None,
      name = [], savedir = sdir, coro = coro_mask, coroR = coroR_mask,
      halo_fit_mask = hfm, ang_shift = shift, science_data = sd,
      model = mdl, ang_weight = replicate (length sd) 1,
      config = [Some ''smooth'', None, Some (if psf = None then ''No'' else ''With''),
                Some ''no'', Some ''Both L and X''],
      smooth = None, xmax = None, p_L = None, regul = None,
      regul2 = None, science_data_ori = None, speckles = None,
      ambiguities = None, stellar_halo = None\<rparr>"

definition mustard_init ::
  "(frame option \<Rightarrow> frame option) \<Rightarrow> (nat \<times> nat \<Rightarrow> real \<Rightarrow> frame) \<Rightarrow> cube \<Rightarrow> real list \<Rightarrow>
     real option \<Rightarrow> pupil_arg \<Rightarrow> real \<Rightarrow> frame option \<Rightarrow> int list option \<Rightarrow> string option \<Rightarrow>
     error + mustard_estimator" where
  "mustard_init convert_to_mask circle science_data0 angles0 coro_arg pupil halo_fit_mask_arg psf
       Badframes savedir_arg =
     (case remove_badframes science_data0 angles0 Badframes of
        Inl e \<Rightarrow> Inl e
      | Inr (sd, angles) \<Rightarrow>
          (case sd of
             [] \<Rightarrow> Inl IndexError
           | frame0 # _ \<Rightarrow>
               (case pupil_masks circle (shape_of frame0) pupil of
                  Inl e \<Rightarrow> Inl e
                | Inr (pupil_mask, pupilR) \<Rightarrow>
                    (case find_nearest (normlizangle angles) (np_median (normlizangle angles)) of
                       Inl e \<Rightarrow> Inl e
                     | Inr nearest \<Rightarrow>
                         let shp = shape_of frame0;
                             sdir = (case savedir_arg of Some d \<Rightarrow> d | None \<Rightarrow> ''.'')
                                      @ ''/mustard_out'' @ [] @ ''/'';
                             c = (case coro_arg of None \<Rightarrow> 0 | Some c \<Rightarrow> c);
                             coro_mask = ew (*) (one_minus (circle shp c)) pupil_mask;
                             coroR_mask = ew (*) (one_minus (circle shp c)) pupilR;
                             hfm = ew (*) (one_minus (circle shp (c + halo_fit_mask_arg))) pupil_mask;
                             shift = 0 * nearest;
                             angles_s = map (\<lambda>a. a - shift) (normlizangle angles);
                             mdl = model_ADI angles_s coro_mask psf
                         in
                         if model_nb_frame mdl \<noteq> model_nb_frame mdl then Inl TypeError
                         else
                           (case configR2 convert_to_mask
                                   (new_estimator shp sd sdir coro_mask coroR_mask hfm shift mdl psf)
                                   None ''l1'' ''X'' False 2 True of
                              Inl e \<Rightarrow> Inl e
                            | Inr self \<Rightarrow> configR1 self ''smooth'' True 1 (1 / 10 ^ 7))))))"

section \<open>Evaluating the regularizers\<close>

text \<open>
  The closures of \<^verbatim>\<open>configR1\<close>, evaluated against the object. An attribute that was
  never set raises \<^verbatim>\<open>AttributeError\<close>. \<^verbatim>\<open>torch.log\<close> of a non-positive number is
  NaN or minus infinity, which the real-valued \<open>ln\<close> does not show.
\<close>

definition sobel_energy :: "frame \<Rightarrow> frame \<Rightarrow> string \<Rightarrow> (frame \<Rightarrow> frame) \<Rightarrow> error + real" where
  "sobel_energy weight X axis post =
     (case sobel_tensor_conv X axis of
        Inl e \<Rightarrow> Inl e
      | Inr g \<Rightarrow> Inr (tsum (post (ew (*) weight (sq g)))))"

definition add_err :: "error + real \<Rightarrow> error + real \<Rightarrow> error + real" where
  "add_err a b = (case a of Inl e \<Rightarrow> Inl e | Inr x \<Rightarrow> (case b of Inl e \<Rightarrow> Inl e | Inr y \<Rightarrow> Inr (x + y)))"

definition smooth_apply :: "mustard_estimator \<Rightarrow> frame \<Rightarrow> error + real" where
  "smooth_apply self X =
     (case smooth self of
        None \<Rightarrow> Inl AttributeError
      | Some (Smooth_with_edges epsi) \<Rightarrow>
          add_err (sobel_energy (coroR self) X ''y'' (map (map (\<lambda>v. v - epsi ^ 2))))
                  (sobel_energy (coroR self) X ''x'' (map (map (\<lambda>v. v - epsi ^ 2))))
      | Some Smooth \<Rightarrow>
          add_err (sobel_energy (coroR self) X ''y'' (\<lambda>A. A))
                  (sobel_energy (coroR self) X ''x'' (\<lambda>A. A))
      | Some Peak_preservation \<Rightarrow>
          (case xmax self of
             None \<Rightarrow> Inl AttributeError
           | Some xm \<Rightarrow>
               let fpeak = map (map (\<lambda>v. ln (xm - v / xm))) X in
               add_err (sobel_energy (ew (*) fpeak (coroR self)) X ''y'' (\<lambda>A. A))
                       (sobel_energy (ew (*) fpeak (coroR self)) X ''x'' (\<lambda>A. A)))
      | Some L1 \<Rightarrow> Inr (tsum (ew (*) (coroR self) (map (map abs) X))))"

definition regul_apply :: "mustard_estimator \<Rightarrow> frame \<Rightarrow> frame \<Rightarrow> error + real" where
  "regul_apply self X L =
     (case regul self of
        None \<Rightarrow> Inl AttributeError
      | Some Regul_X_and_L \<Rightarrow>
          (case p_L self of
             None \<Rightarrow> Inl AttributeError
           | Some p \<Rightarrow>
               add_err (smooth_apply self X)
                 (case smooth_apply self L of Inl e \<Rightarrow> Inl e | Inr v \<Rightarrow> Inr (p * v)))
      | Some Regul_X \<Rightarrow> smooth_apply self X)"

text \<open>
  \<^verbatim>\<open>self.regul2(X, L, self.mask)\<close>; the default mask, the scalar 1, broadcasts to a
  frame of ones.
\<close>

definition regul2_apply :: "mustard_estimator \<Rightarrow> frame \<Rightarrow> frame \<Rightarrow> error + real" where
  "regul2_apply self X L =
     (case regul2 self of
        None \<Rightarrow> Inl AttributeError
      | Some r \<Rightarrow> Inr (r X L (case mask_R2 self of None \<Rightarrow> ones (shape self) | Some M \<Rightarrow> M)))"

section \<open>The start of estimate (mustard/mustard.py)\<close>

text \<open>
  Lines 440-443: \<^verbatim>\<open>kactiv\<close> is an iteration number or \<^verbatim>\<open>"converg"\<close>; the weights
  may be \<^verbatim>\<open>None\<close>. The result is \<^verbatim>\<open>(kactiv, Ractiv, w_r, w_r2, w_rp)\<close>.
\<close>

datatype kactiv_arg = Converg | Iter int

definition activation_setting ::
  "kactiv_arg \<Rightarrow> nat \<Rightarrow> real option \<Rightarrow> real option \<Rightarrow> bool \<Rightarrow> int \<times> nat \<times> real \<times> real \<times> (real \<times> real)" where
  "activation_setting kactiv0 maxiter_arg w_r0 w_r20 pcent =
     (let kactiv = (case kactiv0 of Converg \<Rightarrow> int maxiter_arg | Iter i \<Rightarrow> i);
          Ractiv = (if kactiv \<noteq> 0 then 0 else 1);
          w_r = (case w_r0 of None \<Rightarrow> 0 | Some w \<Rightarrow> w);
          w_r2 = (case w_r20 of None \<Rightarrow> 0 | Some w \<Rightarrow> w);
          w_rp = (if pcent then (w_r, w_r2) else (0, 0))
      in (kactiv, Ractiv, w_r, w_r2, w_rp))"

text \<open>
  Lines 551-560, the automatic weights at step 0; \<^verbatim>\<open>self.halo0\<close> is 0. The result is
  \<^verbatim>\<open>(w_r, w_r2, kactiv)\<close>.
\<close>

definition auto_hyperparameters ::
  "mustard_estimator \<Rightarrow> bool \<Rightarrow> nat \<Rightarrow> real \<times> real \<Rightarrow> real \<Rightarrow> frame \<Rightarrow> frame \<Rightarrow> real \<times> real \<times> int \<Rightarrow>
     error + (real \<times> real \<times> int)" where
  "auto_hyperparameters self pcent Ractiv w_rp_arg loss0 X0 L0 cur =
     (case cur of (w_r, w_r2, kactiv) \<Rightarrow>
        if pcent \<and> Ractiv \<noteq> 0 then
          (case regul_apply self X0 L0 of
             Inl e \<Rightarrow> Inl e
           | Inr reg1 \<Rightarrow>
               let w_r = (if fst w_rp_arg \<noteq> 0 \<and> reg1 > 0 then fst w_rp_arg * loss0 / reg1 else 0) in
               (case regul2_apply self X0 L0 of
                  Inl e \<Rightarrow> Inl e
                | Inr reg2 \<Rightarrow>
                    let w_r2 = (if snd w_rp_arg \<noteq> 0 \<and> reg2 > 0
                                then snd w_rp_arg * loss0 / reg2 else 0);
                        kactiv = (if (fst w_rp_arg \<noteq> 0 \<and> reg1 < 0) \<or> (snd w_rp_arg \<noteq> 0 \<and> reg2 < 0)
                                  then 2 else kactiv)
                    in Inr (w_r, w_r2, kactiv)))
        else Inr (w_r, w_r2, kactiv))"

definition start_weights ::
  "mustard_estimator \<Rightarrow> kactiv_arg \<Rightarrow> nat \<Rightarrow> real option \<Rightarrow> real option \<Rightarrow> bool \<Rightarrow> real \<Rightarrow> frame \<Rightarrow>
     frame \<Rightarrow> error + (real \<times> real \<times> int)" where
  "start_weights self kactiv0 maxiter_arg w_r0 w_r20 pcent loss0 X0 L0 =
     (case activation_setting kactiv0 maxiter_arg w_r0 w_r20 pcent of
        (kactiv, Ractiv, w_r, w_r2, w_rp) \<Rightarrow>
          auto_hyperparameters self pcent Ractiv w_rp loss0 X0 L0 (w_r, w_r2, kactiv))"

section \<open>The cube during estimate\<close>

text \<open>\<^verbatim>\<open>np.min(cube, 0)\<close>: the pixel-wise minimum over the frames; it raises on no frame.\<close>

definition min_axis0 :: "cube \<Rightarrow> error + frame" where
  "min_axis0 c = (case c of [] \<Rightarrow> Inl ValueError | f # fs \<Rightarrow> Inr (foldl (ew min) f fs))"

definition linspace :: "real \<Rightarrow> real \<Rightarrow> nat \<Rightarrow> real list" where
  "linspace a b n = map (\<lambda>i. a + (b - a) * real i / real (n - 1)) [0..<n]"

text \<open>
  Lines 455-458, the median subtraction: frame \<open>i\<close> of the stored cube is overwritten
  with \<^verbatim>\<open>(frame - meds[i]).clip(0)\<close>, where \<^verbatim>\<open>meds[i]\<close> is the median of the frame
  times the coronagraph mask. A frame without pixels has a NaN median and nothing to
  overwrite.
\<close>

definition sub_clip :: "frame \<Rightarrow> real option \<Rightarrow> frame" where
  "sub_clip fr med = (case med of None \<Rightarrow> fr | Some m \<Rightarrow> map (map (\<lambda>v. max (v - m) 0)) fr)"

definition median_subtraction :: "mustard_estimator \<Rightarrow> error + mustard_estimator" where
  "median_subtraction self =
     (let meds = map (\<lambda>fr. np_median (concat (ew (*) (coro self) fr))) (science_data self) in
      if nb_frame self > length (science_data self) then Inl IndexError
      else Inr (self\<lparr>science_data :=
             foldl (\<lambda>sd i. sd[i := sub_clip (sd ! i) (meds ! i)]) (science_data self)
               [0..<nb_frame self]\<rparr>))"

text \<open>
  \<^verbatim>\<open>decompose\<close> (lines 839-846). \<open>cube_derotate\<close> is \<^verbatim>\<open>vip_hci.preproc.cube_derotate\<close>,
  a parameter.
\<close>

definition decompose ::
  "(cube \<Rightarrow> real list \<Rightarrow> cube) \<Rightarrow> mustard_estimator \<Rightarrow> error + mustard_estimator" where
  "decompose cube_derotate self =
     (case min_axis0 (science_data self) of
        Inl e \<Rightarrow> Inl e
      | Inr spk \<Rightarrow>
          (case min_axis0 (cube_derotate (replicate (nb_frame self) spk) (rot_angles (model self))) of
             Inl e \<Rightarrow> Inl e
           | Inr amb \<Rightarrow>
               (case min_axis0 (cube_derotate (replicate 50 amb) (linspace 0 360 50)) of
                  Inl e \<Rightarrow> Inl e
                | Inr halo \<Rightarrow>
                    Inr (self\<lparr>speckles := Some spk, ambiguities := Some amb,
                           stellar_halo := Some halo,
                           science_data_ori := Some (science_data self),
                           science_data :=
                             map (\<lambda>fr. ew (+) (ew (-) fr spk) halo) (science_data self)\<rparr>))))"

text \<open>Lines 454-460 of \<^verbatim>\<open>estimate\<close>: what a run does to the stored cube.\<close>

definition prepare_cube ::
  "(cube \<Rightarrow> real list \<Rightarrow> cube) \<Rightarrow> mustard_estimator \<Rightarrow> bool \<Rightarrow> bool \<Rightarrow> error + mustard_estimator" where
  "prepare_cube cube_derotate self med_sub min_sub =
     (case (if med_sub then median_subtraction self else Inr self) of
        Inl e \<Rightarrow> Inl e
      | Inr self \<Rightarrow> if min_sub then decompose cube_derotate self else Inr self)"

section \<open>The minimization loop of estimate (mustard/mustard.py)\<close>

text \<open>
  The loss is a float that can be NaN, written \<open>None\<close>; a comparison with NaN is false.
\<close>

type_synonym lossval = "real option"

definition isnan :: "lossval \<Rightarrow> bool" where
  "isnan l = (l = None)"

definition gt_nan :: "lossval \<Rightarrow> lossval \<Rightarrow> bool" where
  "gt_nan a b = (case (a, b) of (Some x, Some y) \<Rightarrow> x > y | _ \<Rightarrow> False)"

text \<open>
  The engine of a run. The trainable variables \<^verbatim>\<open>(Lk, Xk, flux_k, fluxR_k)\<close> are a
  value of type \<open>'v\<close> and the L-BFGS optimizer (\<^verbatim>\<open>torch.optim.LBFGS\<close>) is a value of
  type \<open>'o\<close>. \<open>opt_step\<close> is \<^verbatim>\<open>optimizer.step(closure)\<close>: from the optimizer, the
  switch \<^verbatim>\<open>Ractiv\<close> and the two weights read by the closure, and the variables, it
  gives the optimizer and the variables after the step and the values the closure left
  in \<^verbatim>\<open>loss\<close> and \<^verbatim>\<open>Rpos\<close> and in the gradient whose mean absolute value is
  \<^verbatim>\<open>grad\<close>. \<open>opt_new\<close> is a fresh optimizer; \<open>reg1_of\<close> and \<open>reg2_of\<close> are
  \<^verbatim>\<open>self.regul(Xk, Lk + halo_fit)\<close> and \<^verbatim>\<open>self.regul2(Xk, Lk, self.mask)\<close>.
  \<^verbatim>\<open>KeyboardInterrupt\<close>, printing and the GIF are left out.
\<close>

record ('v, 'o) engine =
  opt_step :: "'o \<Rightarrow> nat \<times> real option \<times> real option \<Rightarrow> 'v \<Rightarrow> 'o \<times> 'v \<times> lossval \<times> real \<times> real option"
  opt_new :: 'o
  reg1_of :: "'v \<Rightarrow> real"
  reg2_of :: "'v \<Rightarrow> real"
  w_pcent :: bool
  w_rp :: "real \<times> real"
  gtol :: real
  maxiter :: nat
  kdactiv :: int

record ('v, 'o) solver =
  s_k :: nat
  s_Ractiv :: nat
  s_mink :: nat
  s_kactiv :: int
  s_vars :: 'v
  s_optimizer :: 'o
  s_loss :: lossval
  s_Rpos :: real
  s_w_r :: "real option"
  s_w_r2 :: "real option"
  s_loss_evo :: "lossval list"
  s_grad_evo :: "real option list"
  s_last_iter :: 'v
  s_final_estim :: "'v option"
  s_ending :: string

text \<open>The weight recomputed in \<^verbatim>\<open>activation\<close> (lines 622-627).\<close>

definition pcent_weight :: "real \<Rightarrow> lossval \<Rightarrow> real \<Rightarrow> real \<Rightarrow> real option" where
  "pcent_weight p l rpos reg =
     (if p \<noteq> 0 \<and> reg > 0 then (case l of None \<Rightarrow> None | Some x \<Rightarrow> Some (p * (x - rpos) / reg))
      else Some 0)"

definition reweigh :: "('v, 'o) engine \<Rightarrow> ('v, 'o) solver \<Rightarrow> ('v, 'o) solver" where
  "reweigh E st =
     (if w_pcent E then
        st\<lparr>s_w_r := pcent_weight (fst (w_rp E)) (s_loss st) (s_Rpos st) (reg1_of E (s_vars st)),
           s_w_r2 := pcent_weight (snd (w_rp E)) (s_loss st) (s_Rpos st) (reg2_of E (s_vars st))\<rparr>
      else st)"

definition take_step :: "('v, 'o) engine \<Rightarrow> ('v, 'o) solver \<Rightarrow> ('v, 'o) solver \<times> real option" where
  "take_step E st =
     (case opt_step E (s_optimizer st) (s_Ractiv st, s_w_r st, s_w_r2 st) (s_vars st) of
        (opt, v, l, rpos, g) \<Rightarrow>
          (st\<lparr>s_optimizer := opt, s_vars := v, s_loss := l, s_Rpos := rpos\<rparr>, g))"

text \<open>
  \<^verbatim>\<open>activation()\<close>: the step "ACTIVATED" recomputes the weights and re-instantiates the
  optimizer; the step "AJUSTED" takes one optimizer step first and does the same again.
\<close>

definition activation :: "('v, 'o) engine \<Rightarrow> ('v, 'o) solver \<Rightarrow> ('v, 'o) solver" where
  "activation E st =
     (let st = reweigh E st;
          st = st\<lparr>s_optimizer := opt_new E\<rparr>;
          st = fst (take_step E st);
          st = reweigh E st;
          st = st\<lparr>s_optimizer := opt_new E\<rparr>
      in st)"

datatype control = Next | Break

text \<open>The body of the \<^verbatim>\<open>for\<close> loop at iteration \<open>k\<close> (lines 716-766).\<close>

definition iteration ::
  "('v, 'o) engine \<Rightarrow> nat \<Rightarrow> ('v, 'o) solver \<Rightarrow> ('v, 'o) solver \<times> control" where
  "iteration E k st0 =
     (let st = st0\<lparr>s_k := k\<rparr> in
      if s_kactiv st \<noteq> 0 \<and> int k = s_kactiv st then
        (activation E (st\<lparr>s_Ractiv := 1, s_mink := k + 2\<rparr>), Next)
      else
        let st = (if kdactiv E \<noteq> 0 \<and> int k = kdactiv E then st\<lparr>s_Ractiv := 0\<rparr> else st);
            (st, grad) = take_step E st;
            st = (if k > 1 \<and> (isnan (s_loss st) \<or>
                       (s_kactiv st \<noteq> 0 \<and> int k > s_kactiv st \<and>
                        gt_nan (s_loss st) (last (s_loss_evo st))))
                  then st\<lparr>s_final_estim := Some (s_last_iter st)\<rparr> else st);
            st = st\<lparr>s_loss_evo := s_loss_evo st @ [s_loss st]\<rparr>;
            st = st\<lparr>s_last_iter := s_vars st\<rparr>;
            st = st\<lparr>s_grad_evo := s_grad_evo st @ [grad]\<rparr>
        in
        if k > s_mink st \<and> gt_nan (Some (gtol E)) grad then
          (if s_Ractiv st = 0 \<and> s_kactiv st \<noteq> 0 then
             (activation E (st\<lparr>s_Ractiv := 1, s_mink := k + 2, s_kactiv := int k\<rparr>), Next)
           else
             (st\<lparr>s_ending := (if k = maxiter E then ''max iter reached'' else ''Gtol reached'')\<rparr>,
              Break))
        else if isnan (s_loss st) then
          (st\<lparr>s_ending := ''Nan values end minimization. Last value estimated will be returned.''\<rparr>,
           Break)
        else (st, Next))"

fun run_loop :: "('v, 'o) engine \<Rightarrow> nat list \<Rightarrow> ('v, 'o) solver \<Rightarrow> ('v, 'o) solver" where
  "run_loop E [] st = st"
| "run_loop E (k # ks) st =
     (case iteration E k st of
        (st', Next) \<Rightarrow> run_loop E ks st'
      | (st', Break) \<Rightarrow> st')"

text \<open>The choice of the returned estimate (lines 784-788).\<close>

definition returned_estimate :: "('v, 'o) solver \<Rightarrow> 'v" where
  "returned_estimate st =
     (if s_k st > 1 \<and>
         (isnan (s_loss st) \<or>
          (s_kactiv st \<noteq> 0 \<and> int (s_k st) > s_kactiv st \<and>
           gt_nan (s_loss st) (last (s_loss_evo st))))
      then (case s_final_estim st of Some v \<Rightarrow> v | None \<Rightarrow> s_vars st)
      else s_vars st)"

text \<open>
  The state on entering the loop (lines 525-566 and 702-705): \<open>k = 0\<close>, the initial
  variables, the initial loss recorded, no final candidate.
\<close>

definition initial_solver ::
  "('v, 'o) engine \<Rightarrow> int \<Rightarrow> 'v \<Rightarrow> lossval \<Rightarrow> real \<Rightarrow> real option \<Rightarrow> real option \<Rightarrow> ('v, 'o) solver" where
  "initial_solver E kactiv_arg v0 loss0 rpos w1 w2 =
     \<lparr>s_k = 0, s_Ractiv = (if kactiv_arg \<noteq> 0 then 0 else 1), s_mink = 2, s_kactiv = kactiv_arg,
      s_vars = v0, s_optimizer = opt_new E, s_loss = loss0, s_Rpos = rpos,
      s_w_r = w1, s_w_r2 = w2, s_loss_evo = [loss0], s_grad_evo = [],
      s_last_iter = v0, s_final_estim = None, s_ending = ''undifined''\<rparr>"

definition minimize ::
  "('v, 'o) engine \<Rightarrow> int \<Rightarrow> 'v \<Rightarrow> lossval \<Rightarrow> real \<Rightarrow> real option \<Rightarrow> real option \<Rightarrow> ('v, 'o) solver" where
  "minimize E kactiv_arg v0 loss0 rpos w1 w2 =
     run_loop E [1..<maxiter E + 1] (initial_solver E kactiv_arg v0 loss0 rpos w1 w2)"


section \<open>The rotation primitive (mustard/algo.py)\<close>

text \<open>
  \<^verbatim>\<open>torch.fft.fft\<close> and \<^verbatim>\<open>torch.fft.ifft\<close> of a 1-D sequence, in exact arithmetic.
\<close>

definition fft :: "complex list \<Rightarrow> complex list" where
  "fft xs =
     (let n = length xs in
      map (\<lambda>k. \<Sum>m \<leftarrow> [0..<n]. xs ! m * cis (- (2 * pi * real k * real m / real n))) [0..<n])"

definition ifft :: "complex list \<Rightarrow> complex list" where
  "ifft xs =
     (let n = length xs in
      map (\<lambda>m. (\<Sum>k \<leftarrow> [0..<n]. xs ! k * cis (2 * pi * real k * real m / real n)) / of_nat n)
        [0..<n])"


text \<open>
  \<^verbatim>\<open>fftshift\<close> rolls an axis of length \<open>n\<close> by \<open>n // 2\<close>; without a \<^verbatim>\<open>dim\<close> it rolls
  every axis (the leading axis of length one stays as it is).
\<close>

definition fftshift :: "'a list \<Rightarrow> 'a list" where
  "fftshift xs = (let h = length xs - length xs div 2 in drop h xs @ take h xs)"


definition fftfreq :: "nat \<Rightarrow> real list" where
  "fftfreq n = map (\<lambda>i. (if i \<le> (n - 1) div 2 then real i else real i - real n) / real n) [0..<n]"










section \<open>Kernel sizes\<close>



lemma conv2d_same_shape:
  "length (conv2d_same f K) = length f \<and>
   (\<forall>i < length f. length (conv2d_same f K ! i) = length (f ! i))"
  by (simp add: conv2d_same_def Let_def)

lemma conv2d_same_pixel:
  assumes "i < length f" "j < length (f ! i)"
  shows "conv2d_same f K ! i ! j =
     (\<Sum>u \<leftarrow> [0..<length K]. \<Sum>v \<leftarrow> [0..<length (K ! u)].
        K ! u ! v * px f (int i + int u - int ((length K - 1) div 2))
                         (int j + int v - int ((length K - 1) div 2)))"
  using assms by (simp add: conv2d_same_def Let_def)






section \<open>Angle reduction\<close>

lemma wrap_neg_id: "0 \<le> a \<Longrightarrow> wrap_neg a = a"
  by (subst wrap_neg.simps) simp

lemma wrap_pos_id: "a \<le> 360 \<Longrightarrow> wrap_pos a = a"
  by (subst wrap_pos.simps) simp

text \<open>
  C9 (as the code behaves at \<open>\<theta> = 135\<close>). The angle 135 lies in \<open>[0, 360]\<close>; the
  reduction yields two quarter turns and a residual of 45 degrees, so that
  \<open>90 * nangle + dangle\<close> is 225, which is not congruent to 135 modulo 360.
\<close>

theorem angle_reduction_135:
  "angle_reduction 135 = (2, 45) \<and>
   (\<forall>k::int. 90 * real_of_int (fst (angle_reduction 135)) + snd (angle_reduction 135)
      \<noteq> 135 + 360 * real_of_int k)"
proof -
  have r: "rint (3 / 2) = 2" by (simp add: rint_def Let_def)
  have m: "fmod 135 90 = 45" by (simp add: fmod_def)
  have red: "angle_reduction 135 = (2, 45)"
    by (simp add: angle_reduction_def Let_def r m wrap_neg_id wrap_pos_id)
  have "\<And>k::int. (225::real) \<noteq> 135 + 360 * real_of_int k"
  proof
    fix k :: int
    assume "(225::real) = 135 + 360 * real_of_int k"
    then have "real_of_int (4 * k) = real_of_int 1" by simp
    then have "4 * k = 1" by (simp only: of_int_eq_iff)
    then show False by presburger
  qed
  with red show ?thesis by simp
qed

section \<open>The two copies of compute_rot_weight\<close>
lemma nm_neighbours_after_eq:
  "nm_neighbours_after angs i m t n d = neighbours_after angs i m t n d"
proof (induction angs i m t n d rule: neighbours_after.induct)
  case (1 angs id_ang max_rot tmp_id nb_neighbours detla_ang)
  then show ?case
    by (subst nm_neighbours_after.simps, subst neighbours_after.simps) simp
qed

lemma nm_neighbours_before_eq:
  "nm_neighbours_before angs i m t n d = neighbours_before angs i m t n d"
proof (induction angs i m t n d rule: neighbours_before.induct)
  case (1 angs id_ang max_rot tmp_id nb_neighbours detla_ang)
  then show ?case
    by (subst nm_neighbours_before.simps, subst neighbours_before.simps) simp
qed

lemma nm_frame_weight_eq: "nm_frame_weight angs m i = frame_weight angs m i"
  by (simp add: nm_frame_weight_def frame_weight_def nm_neighbours_after_eq
      nm_neighbours_before_eq)

lemma frame_weight_pos: "0 < frame_weight angs m i"
  by (simp add: frame_weight_def Let_def add_pos_pos)

lemma sum_list_pos_real: "xs \<noteq> [] \<Longrightarrow> (\<And>x. x \<in> set xs \<Longrightarrow> 0 < x) \<Longrightarrow> 0 < sum_list xs"
  for xs :: "real list"
  by (induction xs) (auto simp: add_pos_nonneg sum_list_nonneg less_imp_le)

lemma compute_rot_weight_sum_pos:
  "angs \<noteq> [] \<Longrightarrow> 0 < sum_list (compute_rot_weight angs)"
  by (rule sum_list_pos_real) (auto simp: compute_rot_weight_def frame_weight_pos)


text \<open>
  C10 (as amended). The copy in neo_mayo/neo_mayo.py returns the weights of the copy in
  mustard/mustard.py multiplied by \<open>nb_frm / sum(ang_weight)\<close>: on an empty angle list
  it raises where the mustard copy returns the empty array, and on a non-empty list the
  two results are equal exactly when the mustard weights sum to the number of frames.
\<close>

theorem compute_rot_weight_copies:
  "nm_compute_rot_weight [] = Inl ZeroDivisionError \<and> compute_rot_weight [] = [] \<and>
   (angs \<noteq> [] \<longrightarrow>
      0 < sum_list (compute_rot_weight angs) \<and>
      nm_compute_rot_weight angs =
        Inr (map (\<lambda>w. w * (real (length angs) / sum_list (compute_rot_weight angs)))
               (compute_rot_weight angs)) \<and>
      (nm_compute_rot_weight angs = Inr (compute_rot_weight angs)
         \<longleftrightarrow> sum_list (compute_rot_weight angs) = real (length angs)))"
proof -
  have e1: "nm_compute_rot_weight [] = Inl ZeroDivisionError"
    by (simp add: nm_compute_rot_weight_def)
  have e2: "compute_rot_weight [] = []"
    by (simp add: compute_rot_weight_def)
  have ne: "nm_compute_rot_weight angs =
        Inr (map (\<lambda>w. w * (real (length angs) / sum_list (compute_rot_weight angs)))
               (compute_rot_weight angs))" if "angs \<noteq> []"
    using that
    by (simp add: nm_compute_rot_weight_def compute_rot_weight_def Let_def nm_frame_weight_eq
        cong: map_cong)
  have iff: "(map (\<lambda>w. w * (real (length angs) / S)) ws = ws) \<longleftrightarrow> S = real (length angs)"
    if "ws \<noteq> []" "\<And>w. w \<in> set ws \<Longrightarrow> 0 < w" "0 < S" for ws :: "real list" and S
  proof
    assume m: "map (\<lambda>w. w * (real (length angs) / S)) ws = ws"
    from that(1) obtain w where w: "w \<in> set ws" by (cases ws) auto
    from m have "map (\<lambda>w. w * (real (length angs) / S)) ws = map (\<lambda>w. w) ws" by simp
    with w have "w * (real (length angs) / S) = w" by (simp only: map_eq_conv)
    moreover from that(2)[OF w] have "w \<noteq> 0" by simp
    ultimately have "real (length angs) / S = 1" by (simp only: mult_cancel_left2 simp_thms)
    with that(3) show "S = real (length angs)" by simp
  next
    assume "S = real (length angs)"
    with that(3) show "map (\<lambda>w. w * (real (length angs) / S)) ws = ws" by simp
  qed
  have ws: "compute_rot_weight angs \<noteq> []" if "angs \<noteq> []"
    using that by (simp add: compute_rot_weight_def)
  have wp: "\<And>w. w \<in> set (compute_rot_weight angs) \<Longrightarrow> 0 < w"
    by (auto simp: compute_rot_weight_def frame_weight_pos)
  have main: "0 < sum_list (compute_rot_weight angs) \<and>
      nm_compute_rot_weight angs =
        Inr (map (\<lambda>w. w * (real (length angs) / sum_list (compute_rot_weight angs)))
               (compute_rot_weight angs)) \<and>
      (nm_compute_rot_weight angs = Inr (compute_rot_weight angs)
         \<longleftrightarrow> sum_list (compute_rot_weight angs) = real (length angs))" if n: "angs \<noteq> []"
  proof (intro conjI)
    show "0 < sum_list (compute_rot_weight angs)" by (rule compute_rot_weight_sum_pos[OF n])
    show "nm_compute_rot_weight angs =
        Inr (map (\<lambda>w. w * (real (length angs) / sum_list (compute_rot_weight angs)))
               (compute_rot_weight angs))" by (rule ne[OF n])
    show "(nm_compute_rot_weight angs = Inr (compute_rot_weight angs))
         \<longleftrightarrow> sum_list (compute_rot_weight angs) = real (length angs)"
      unfolding ne[OF n] sum.inject
      by (rule iff[OF ws[OF n] wp compute_rot_weight_sum_pos[OF n]])
  qed
  show ?thesis
    apply (intro conjI impI)
        apply (rule e1)
       apply (rule e2)
      apply (erule main[THEN conjunct1])
     apply (erule main[THEN conjunct2, THEN conjunct1])
    apply (erule main[THEN conjunct2, THEN conjunct2])
    done
qed

theorem compute_rot_weight_copies_witness:
  "[0, 1 / 2, 1] \<noteq> ([] :: real list) \<and>
   compute_rot_weight [0, 1 / 2, 1] = [1, 1, 1] \<and>
   nm_compute_rot_weight [0, 1 / 2, 1] = Inr (compute_rot_weight [0, 1 / 2, 1])"
proof -
  have w: "compute_rot_weight [0, 1 / 2, 1] = [1, 1, 1]" by code_simp
  show ?thesis using compute_rot_weight_copies [of "[0, 1 / 2, 1]"] by (simp add: w)
qed

text \<open>
  C10 as stated fails: on the angles 0, 0, 1, 2 the two copies return different arrays.
\<close>

theorem compute_rot_weight_copies_differ:
  "compute_rot_weight [0, 0, 1, 2] = [3 / 4, 1, 1, 1] \<and>
   nm_compute_rot_weight [0, 0, 1, 2] = Inr [4 / 5, 16 / 15, 16 / 15, 16 / 15] \<and>
   nm_compute_rot_weight [0, 0, 1, 2] \<noteq> Inr (compute_rot_weight [0, 0, 1, 2])"
proof -
  have m: "compute_rot_weight [0, 0, 1, 2] = [3 / 4, 1, 1, 1]" by code_simp
  have n: "nm_compute_rot_weight [0, 0, 1, 2] = Inr [4 / 5, 16 / 15, 16 / 15, 16 / 15]"
    by code_simp
  show ?thesis by (simp add: m n)
qed

section \<open>Construction and configuration of the estimator\<close>

lemma configR1_Inr: "\<exists>s. configR1 self mode smoothL p epsi = Inr s"
  by (simp add: configR1_def Let_def)

lemma capitalize_X: "capitalize ''X'' = ''X''" by code_simp
lemma capitalize_L: "capitalize ''L'' = ''L''" by code_simp

lemma configR2_l1_X:
  "\<exists>s. configR2 cm self None ''l1'' ''X'' False p_w sv = Inr s \<and> nb_frame s = nb_frame self
     \<and> model s = model self \<and> science_data s = science_data self"
  by (simp add: configR2_def Let_def capitalize_X)

lemma configR1_keeps:
  "configR1 self mode smoothL p epsi = Inr s \<Longrightarrow>
     nb_frame s = nb_frame self \<and> model s = model self \<and> science_data s = science_data self"
  by (auto simp: configR1_def Let_def split: if_splits)

lemma init_tail:
  assumes "nb_frame self = n" "model_nb_frame (model self) = m" "science_data self = sd"
  shows "\<exists>s. (case configR2 cm self None ''l1'' ''X'' False 2 True of
                Inl e \<Rightarrow> Inl e
              | Inr self \<Rightarrow> configR1 self ''smooth'' True 1 eps) = Inr s
            \<and> nb_frame s = n \<and> model_nb_frame (model s) = m \<and> science_data s = sd"
proof -
  obtain s1 where s1: "configR2 cm self None ''l1'' ''X'' False 2 True = Inr s1"
    "nb_frame s1 = nb_frame self" "model s1 = model self" "science_data s1 = science_data self"
    using configR2_l1_X[of cm self 2 True] by blast
  obtain s2 where s2: "configR1 s1 ''smooth'' True 1 eps = Inr s2"
    using configR1_Inr by blast
  from configR1_keeps[OF s2] s1 assms show ?thesis by (simp add: s2)
qed

lemma np_median_Cons: "\<exists>x. np_median (a # as) = Some x"
proof -
  have g: "\<And>c (u::real) v. \<exists>x. (if c then Some u else Some v) = Some x" by auto
  show ?thesis
    unfolding np_median_def Let_def by (simp only: length_Cons nat.distinct if_False g)
qed

lemma mustard_init_ok:
  assumes "science_data0 \<noteq> []" "angles0 \<noteq> []"
  shows "\<exists>s. mustard_init cm circle science_data0 angles0 coro_arg Pupil_edge hfm psf None sdir = Inr s
           \<and> nb_frame s = length science_data0
           \<and> model_nb_frame (model s) = length angles0
           \<and> science_data s = science_data0"
proof -
  from assms(1) obtain f0 fs where sd: "science_data0 = f0 # fs" by (cases science_data0) auto
  from assms(2) obtain a0 as where an: "normlizangle angles0 = a0 # as"
    by (cases angles0) (auto simp: normlizangle_def)
  obtain x where md: "np_median (a0 # as) = Some x" using np_median_Cons by blast
  have fn: "find_nearest (a0 # as) (Some x) = Inr (arg_min_list (\<lambda>a. \<bar>a - x\<bar>) (a0 # as))"
    by (simp add: find_nearest_def)
  have "length (normlizangle angles0) = length angles0" by (simp add: normlizangle_def)
  then have len: "Suc (length as) = length angles0" by (simp add: an)
  have rb: "remove_badframes (f0 # fs) angles0 None = Inr (f0 # fs, angles0)"
    by (simp add: remove_badframes_def)
  have pm: "pupil_masks circle (shape_of f0) Pupil_edge =
      Inr (circle (shape_of f0) (real (fst (shape_of f0)) / 2),
           circle (shape_of f0) (real (fst (shape_of f0)) / 2 - 2))"
    by (simp add: pupil_masks_def)
  show ?thesis
    apply (simp only: mustard_init_def sd rb pm an md fn Let_def sum.case list.case prod.case
        simp_thms if_False)
    apply (rule init_tail)
      apply (simp_all add: model_ADI_def new_estimator_def len)
    done
qed

text \<open>
  C1 (the code at a cube of three frames and a list of two angles). The constructor
  returns an object: line 154 compares \<^verbatim>\<open>self.model.nb_frame\<close> with itself, so the
  statement at line 155 is never reached, whatever the two lengths are. The object
  counts three frames and its model counts two.
\<close>

theorem mustard_init_mismatch:
  "\<not> isl (mustard_init cm circle [[[1]], [[2]], [[3]]] [0, 10] (Some 6) Pupil_edge 5
            None None (Some ''./'')) \<and>
   nb_frame (projr (mustard_init cm circle [[[1]], [[2]], [[3]]] [0, 10] (Some 6)
            Pupil_edge 5 None None (Some ''./''))) = 3 \<and>
   model_nb_frame (model (projr (mustard_init cm circle [[[1]], [[2]], [[3]]] [0, 10]
            (Some 6) Pupil_edge 5 None None (Some ''./'')))) = 2"
proof -
  obtain s where "mustard_init cm circle [[[1]], [[2]], [[3]]] [0, 10] (Some 6)
      Pupil_edge 5 None None (Some ''./'') = Inr s" "nb_frame s = length [[[1::real]], [[2]], [[3]]]"
      "model_nb_frame (model s) = length [0::real, 10]"
    using mustard_init_ok[of "[[[1]], [[2]], [[3]]]" "[0, 10]" cm circle "Some 6" 5 None "Some ''./''"]
    by blast
  then show ?thesis by simp
qed

text \<open>
  C6 (the code at the mode \<^verbatim>\<open>"sobel"\<close>, which is none of the four modes). The chain of
  \<^verbatim>\<open>if/elif\<close> in \<^verbatim>\<open>configR1\<close> has no final \<^verbatim>\<open>else\<close>: the call returns, keeps the
  smoothing function configured before and sets \<^verbatim>\<open>p_L\<close> and \<^verbatim>\<open>regul\<close> as for a
  valid mode.
\<close>

theorem configR1_unknown_mode:
  "configR1 self ''sobel'' smoothL p epsi =
     Inr (self\<lparr>p_L := Some p, regul := Some (if smoothL then Regul_X_and_L else Regul_X)\<rparr>) \<and>
   smooth (projr (configR1 self ''sobel'' smoothL p epsi)) = smooth self"
  by (simp add: configR1_def Let_def)

lemma configR2_dist_L:
  assumes "shape_of Msk = frame_shape (model self)"
  shows "\<exists>s. configR2 cm self (Some Msk) ''dist'' ''L'' invert p_w sv = Inr s \<and>
           regul2 s = Some (\<lambda>X L M. tsum (ew (*) (coro self) (sq (ew (-) M X)))) \<and>
           mask_R2 s = Some Msk \<and> coro s = coro self"
  using assms by (simp add: configR2_def Let_def capitalize_L)

text \<open>
  C4 (the code on a frame of one pixel, with coronagraph mask 1 and prior mask 1). After
  \<^verbatim>\<open>configR2(Msk, mode="dist", penaliz="L")\<close> the regularizer is the closure of line
  289, \<^verbatim>\<open>tsum(rM * (M - X) ** 2)\<close>: at \<open>X = 0\<close> it is 1 whether \<open>L\<close> is 1 or 0, and at
  \<open>X = 1, L = 0\<close> it is 0, while the masked squared distance between the mask and
  \<open>L = 1\<close> is 0.
\<close>

theorem configR2_dist_L_ignores_L:
  "(case configR2 cm (new_estimator (shape_of [[1]]) [[[1]]] [] [[1]] [[1]] [[1]] 0 (model_ADI [0] [[1]] None) None)
           (Some [[1]]) ''dist'' ''L'' False 2 True of
      Inl e \<Rightarrow> False
    | Inr s \<Rightarrow>
        (case regul2 s of
           None \<Rightarrow> False
         | Some r \<Rightarrow>
             r [[0]] [[1]] [[1]] = 1 \<and> r [[0]] [[0]] [[1]] = 1 \<and> r [[1]] [[0]] [[1]] = 0 \<and>
             tsum (ew (*) (coro s) (sq (ew (-) [[1]] [[1]]))) = 0))"
proof -
  let ?self = "new_estimator (shape_of [[1]]) [[[1]]] [] [[1]] [[1]] [[1]] 0 (model_ADI [0] [[1]] None) None"
  have sh: "shape_of [[1]] = frame_shape (model ?self)"
    by (simp add: new_estimator_def model_ADI_def shape_of_def)
  have c: "coro ?self = [[1]]" by (simp add: new_estimator_def)
  obtain s where s: "configR2 cm ?self (Some [[1]]) ''dist'' ''L'' False 2 True = Inr s"
      "regul2 s = Some (\<lambda>X L M. tsum (ew (*) (coro ?self) (sq (ew (-) M X))))"
      "coro s = coro ?self"
    using configR2_dist_L[OF sh, of cm False 2 True] by blast
  show ?thesis
    unfolding s sum.case option.case c by (simp add: tsum_def ew_def sq_def)
qed

section \<open>The weights at the start of estimate\<close>

lemma start_weights_active:
  assumes "regul_apply self X0 L0 = Inr reg1" "regul2_apply self X0 L0 = Inr reg2"
  shows "start_weights self (Iter 0) n (Some p1) (Some p2) True loss0 X0 L0 =
           Inr (if p1 \<noteq> 0 \<and> reg1 > 0 then p1 * loss0 / reg1 else 0,
                if p2 \<noteq> 0 \<and> reg2 > 0 then p2 * loss0 / reg2 else 0,
                if (p1 \<noteq> 0 \<and> reg1 < 0) \<or> (p2 \<noteq> 0 \<and> reg2 < 0) then 2 else 0)"
  using assms
  by (simp add: start_weights_def activation_setting_def auto_hyperparameters_def Let_def)

lemma start_weights_delayed:
  "k \<noteq> 0 \<Longrightarrow> start_weights self (Iter k) n (Some p1) (Some p2) True loss0 X0 L0 = Inr (p1, p2, k)"
  by (simp add: start_weights_def activation_setting_def auto_hyperparameters_def Let_def)

text \<open>
  C5 (as amended). With percentage weights and regularization active from the start
  (\<^verbatim>\<open>kactiv = 0\<close>), a weight is the percentage times the loss over the raw value when
  the percentage is non-zero and the raw value is positive, and 0 otherwise; \<^verbatim>\<open>kactiv\<close>
  becomes 2 exactly when a raw value with a non-zero percentage is negative, and stays 0
  otherwise, also for a raw value of zero. With a non-zero \<^verbatim>\<open>kactiv\<close> the block is
  skipped: the weights and \<^verbatim>\<open>kactiv\<close> are as given.
\<close>

theorem start_weights_fallback:
  assumes "regul_apply self X0 L0 = Inr reg1" "regul2_apply self X0 L0 = Inr reg2"
  shows "start_weights self (Iter 0) n (Some p1) (Some p2) True loss0 X0 L0 =
           Inr (if p1 \<noteq> 0 \<and> reg1 > 0 then p1 * loss0 / reg1 else 0,
                if p2 \<noteq> 0 \<and> reg2 > 0 then p2 * loss0 / reg2 else 0,
                if (p1 \<noteq> 0 \<and> reg1 < 0) \<or> (p2 \<noteq> 0 \<and> reg2 < 0) then 2 else 0) \<and>
         (k \<noteq> 0 \<longrightarrow>
            start_weights self (Iter k) n (Some p1) (Some p2) True loss0 X0 L0 = Inr (p1, p2, k))"
  using start_weights_active[OF assms] start_weights_delayed by blast

lemma sobel_zero: "sobel_tensor_conv [[0]] ''y'' = Inr [[0]] \<and> sobel_tensor_conv [[0]] ''x'' = Inr [[0]]"
  by (simp add: sobel_tensor_conv_def conv2d_same_def sobel_x_def sobel_y_def px_def Let_def)

theorem start_weights_fallback_witness:
  "start_weights
     (new_estimator (shape_of [[1]]) [[[1]]] [] [[1]] [[1]] [[1]] 0 (model_ADI [0] [[1]] None) None
        \<lparr>smooth := Some L1, p_L := Some 1, regul := Some Regul_X_and_L,
         regul2 := Some (\<lambda>X L M. - 1 * (tsum (sq X) - tsum (sq L)))\<rparr>)
     (Iter 0) 10 (Some (3 / 100)) (Some (3 / 100)) True 10 [[1]] [[0]] = Inr (3 / 10, 0, 2)"
proof -
  let ?self = "new_estimator (shape_of [[1]]) [[[1]]] [] [[1]] [[1]] [[1]] 0 (model_ADI [0] [[1]] None) None
        \<lparr>smooth := Some L1, p_L := Some 1, regul := Some Regul_X_and_L,
         regul2 := Some (\<lambda>X L M. - 1 * (tsum (sq X) - tsum (sq L)))\<rparr>"
  have r1: "regul_apply ?self [[1]] [[0]] = Inr 1"
    by (simp add: regul_apply_def smooth_apply_def add_err_def new_estimator_def tsum_def ew_def)
  have r2: "regul2_apply ?self [[1]] [[0]] = Inr (- 1)"
    by (simp add: regul2_apply_def new_estimator_def tsum_def sq_def)
  show ?thesis
    using start_weights_fallback[OF r1 r2, of 10 "3 / 100" "3 / 100" 10 1] by simp
qed

text \<open>
  C5 as stated fails: with the default regularizers, percentages of 3 percent and
  all-zero initial maps both raw values are 0; both weights are set to 0 and \<^verbatim>\<open>kactiv\<close>
  stays 0.
\<close>

theorem start_weights_zero_value:
  "start_weights
     (new_estimator (shape_of [[1]]) [[[1]]] [] [[1]] [[1]] [[1]] 0 (model_ADI [0] [[1]] None) None
        \<lparr>smooth := Some Smooth, p_L := Some 1, regul := Some Regul_X_and_L,
         regul2 := Some (\<lambda>X L M. tsum (sq X))\<rparr>)
     (Iter 0) 10 (Some (3 / 100)) (Some (3 / 100)) True 10 [[0]] [[0]] = Inr (0, 0, 0)"
proof -
  let ?self = "new_estimator (shape_of [[1]]) [[[1]]] [] [[1]] [[1]] [[1]] 0 (model_ADI [0] [[1]] None) None
        \<lparr>smooth := Some Smooth, p_L := Some 1, regul := Some Regul_X_and_L,
         regul2 := Some (\<lambda>X L M. tsum (sq X))\<rparr>"
  have r1: "regul_apply ?self [[0]] [[0]] = Inr 0"
    by (simp add: regul_apply_def smooth_apply_def add_err_def sobel_energy_def sobel_zero
        new_estimator_def tsum_def ew_def sq_def)
  have r2: "regul2_apply ?self [[0]] [[0]] = Inr 0"
    by (simp add: regul2_apply_def new_estimator_def tsum_def sq_def)
  show ?thesis
    by (simp add: start_weights_def activation_setting_def auto_hyperparameters_def Let_def r1 r2)
qed

section \<open>The divergence checkpoint\<close>

text \<open>
  C2 (the code on a run of three iterations with activation at iteration 1, in which the
  loss is 10 at the start, 5 after iteration 2 and 7 after iteration 3; the variables
  are numbered by the optimizer steps taken). At iteration 3 the loss exceeds the
  recorded one and the iterate of iteration 2 is captured as the final candidate. The
  final test of line 784 compares the loss with \<^verbatim>\<open>loss_evo[-1]\<close>, which by then is
  that same loss, so the estimate returned is the last raw iterate, number 3, and not
  the candidate, number 2.
\<close>

theorem returned_estimate_after_increase:
  "(let E = \<lparr>opt_step = (\<lambda>opt cfg v. (opt, v + 1, Some (if v + 1 = 3 then 7 else 5), 0, Some 1)),
              opt_new = (), reg1_of = (\<lambda>v. 1), reg2_of = (\<lambda>v. 1), w_pcent = False,
              w_rp = (0, 0), gtol = 1 / 10 ^ 10, maxiter = 3, kdactiv = 0\<rparr>;
        st = minimize E 1 (0::nat) (Some 10) 0 (Some 0) (Some 0)
    in s_k st = 3 \<and> s_kactiv st = 1 \<and>
       s_loss_evo st = [Some 10, Some 5, Some 7] \<and>
       s_final_estim st = Some 2 \<and>
       s_vars st = 3 \<and>
       returned_estimate st = 3)"
  by code_simp

section \<open>The stored cube during a run\<close>

lemma foldl_update_map:
  "n \<le> length xs \<Longrightarrow>
     foldl (\<lambda>sd i. sd[i := g i (sd ! i)]) xs [0..<n] = map (\<lambda>i. g i (xs ! i)) [0..<n] @ drop n xs"
proof (induction n)
  case 0
  then show ?case by simp
next
  case (Suc n)
  then have n: "n < length xs" by simp
  have d: "drop n xs = xs ! n # drop (Suc n) xs" using n by (simp add: Cons_nth_drop_Suc)
  have ih: "foldl (\<lambda>sd i. sd[i := g i (sd ! i)]) xs [0..<n] = map (\<lambda>i. g i (xs ! i)) [0..<n] @ drop n xs"
    using Suc by simp
  have "foldl (\<lambda>sd i. sd[i := g i (sd ! i)]) xs [0..<Suc n] =
        (map (\<lambda>i. g i (xs ! i)) [0..<n] @ drop n xs)
          [n := g n ((map (\<lambda>i. g i (xs ! i)) [0..<n] @ drop n xs) ! n)]"
    by (simp only: upt_Suc_append[OF le0] foldl_append foldl.simps ih)
  also have "\<dots> = map (\<lambda>i. g i (xs ! i)) [0..<n] @ (g n (xs ! n) # drop (Suc n) xs)"
    unfolding d by (simp add: nth_append list_update_append)
  also have "\<dots> = map (\<lambda>i. g i (xs ! i)) [0..<Suc n] @ drop (Suc n) xs"
    by simp
  finally show ?case .
qed

lemma map_index_frames:
  "map (\<lambda>i. h (xs ! i) (map m xs ! i)) [0..<length xs] = map (\<lambda>fr. h fr (m fr)) xs"
proof -
  have "map (\<lambda>i. h (xs ! i) (map m xs ! i)) [0..<length xs] =
        map (\<lambda>i. (\<lambda>fr. h fr (m fr)) (xs ! i)) [0..<length xs]"
    by (rule map_cong) simp_all
  also have "\<dots> = map (\<lambda>fr. h fr (m fr)) (map (\<lambda>i. xs ! i) [0..<length xs])"
    by (simp only: map_map comp_def)
  also have "\<dots> = map (\<lambda>fr. h fr (m fr)) xs"
    by (simp only: map_nth)
  finally show ?thesis .
qed

lemma foldl_update_all:
  "foldl (\<lambda>sd i. sd[i := h (sd ! i) (map m xs ! i)]) xs [0..<length xs] = map (\<lambda>fr. h fr (m fr)) xs"
proof -
  have "foldl (\<lambda>sd i. sd[i := h (sd ! i) (map m xs ! i)]) xs [0..<length xs] =
        map (\<lambda>i. h (xs ! i) (map m xs ! i)) [0..<length xs] @ drop (length xs) xs"
    by (rule foldl_update_map[where g = "\<lambda>i fr. h fr (map m xs ! i)"]) simp
  then show ?thesis by (simp only: map_index_frames drop_all[OF order_refl] append_Nil2)
qed

lemma median_subtraction_frames:
  assumes "nb_frame self = length (science_data self)"
  shows "median_subtraction self =
     Inr (self\<lparr>science_data :=
            map (\<lambda>fr. sub_clip fr (np_median (concat (ew (*) (coro self) fr)))) (science_data self)\<rparr>)"
  unfolding median_subtraction_def Let_def assms
  by (simp only: foldl_update_all less_irrefl if_False)

lemma decompose_Inr:
  assumes "decompose cube_derotate self = Inr s"
  shows "\<exists>spk amb halo.
           min_axis0 (science_data self) = Inr spk \<and>
           s = self\<lparr>speckles := Some spk, ambiguities := Some amb, stellar_halo := Some halo,
                    science_data_ori := Some (science_data self),
                    science_data := map (\<lambda>fr. ew (+) (ew (-) fr spk) halo) (science_data self)\<rparr>"
proof (cases "min_axis0 (science_data self)")
  case (Inl e)
  with assms show ?thesis by (simp add: decompose_def)
next
  case spk: (Inr spk)
  show ?thesis
  proof (cases "min_axis0 (cube_derotate (replicate (nb_frame self) spk) (rot_angles (model self)))")
    case (Inl e)
    with assms spk show ?thesis by (simp add: decompose_def)
  next
    case amb: (Inr amb)
    show ?thesis
    proof (cases "min_axis0 (cube_derotate (replicate 50 amb) (linspace 0 360 50))")
      case (Inl e)
      with assms spk amb show ?thesis by (simp add: decompose_def)
    next
      case (Inr halo)
      with assms spk amb have "s = self\<lparr>speckles := Some spk, ambiguities := Some amb,
           stellar_halo := Some halo, science_data_ori := Some (science_data self),
           science_data := map (\<lambda>fr. ew (+) (ew (-) fr spk) halo) (science_data self)\<rparr>"
        by (simp add: decompose_def)
      with spk show ?thesis by blast
    qed
  qed
qed

text \<open>
  C3 (as amended). A run leaves the stored cube as it is when \<^verbatim>\<open>med_sub\<close> and
  \<^verbatim>\<open>min_sub\<close> are both off. With \<^verbatim>\<open>min_sub\<close> on (the default) and \<^verbatim>\<open>med_sub\<close>
  off, \<^verbatim>\<open>decompose\<close> keeps the cube of before in \<^verbatim>\<open>science_data_ori\<close> and stores
  every frame minus the speckles (the pixel-wise minimum over the frames) plus the
  stellar halo. With \<^verbatim>\<open>med_sub\<close> on and \<^verbatim>\<open>min_sub\<close> off, every frame is overwritten
  with itself minus the median of the masked frame, clipped at 0.
\<close>

theorem prepare_cube_effect:
  "prepare_cube cube_derotate self False False = Inr self \<and>
   (\<forall>s. prepare_cube cube_derotate self False True = Inr s \<longrightarrow>
        science_data_ori s = Some (science_data self) \<and>
        (\<exists>spk halo. min_axis0 (science_data self) = Inr spk \<and>
           speckles s = Some spk \<and> stellar_halo s = Some halo \<and>
           science_data s = map (\<lambda>fr. ew (+) (ew (-) fr spk) halo) (science_data self))) \<and>
   (nb_frame self = length (science_data self) \<longrightarrow>
      prepare_cube cube_derotate self True False =
        Inr (self\<lparr>science_data :=
               map (\<lambda>fr. sub_clip fr (np_median (concat (ew (*) (coro self) fr))))
                 (science_data self)\<rparr>))"
proof (intro conjI allI impI)
  show "prepare_cube cube_derotate self False False = Inr self"
    by (simp add: prepare_cube_def)
next
  fix s
  assume "prepare_cube cube_derotate self False True = Inr s"
  then have "decompose cube_derotate self = Inr s" by (simp add: prepare_cube_def)
  from decompose_Inr[OF this] obtain spk amb halo where
    m: "min_axis0 (science_data self) = Inr spk" and
    s: "s = self\<lparr>speckles := Some spk, ambiguities := Some amb, stellar_halo := Some halo,
                  science_data_ori := Some (science_data self),
                  science_data := map (\<lambda>fr. ew (+) (ew (-) fr spk) halo) (science_data self)\<rparr>"
    by blast
  from s show "science_data_ori s = Some (science_data self)" by simp
  from m s show "\<exists>spk halo. min_axis0 (science_data self) = Inr spk \<and>
           speckles s = Some spk \<and> stellar_halo s = Some halo \<and>
           science_data s = map (\<lambda>fr. ew (+) (ew (-) fr spk) halo) (science_data self)"
    by simp
next
  assume "nb_frame self = length (science_data self)"
  then show "prepare_cube cube_derotate self True False =
        Inr (self\<lparr>science_data :=
               map (\<lambda>fr. sub_clip fr (np_median (concat (ew (*) (coro self) fr))))
                 (science_data self)\<rparr>)"
    by (simp add: prepare_cube_def median_subtraction_frames)
qed

lemma median_example:
  "sub_clip [[5, 1]] (np_median (concat (ew (*) [[1, 1]] [[5, 1]]))) = [[2, 0]]"
  "sub_clip [[2, 8]] (np_median (concat (ew (*) [[1, 1]] [[2, 8]]))) = [[0, 3]]"
  by code_simp+

lemma min_axis0_examples:
  "min_axis0 [[[5, 1]], [[2, 8]]] = Inr [[2, 1]]"
  "min_axis0 (replicate 2 [[2, 1]]) = Inr [[2, 1]]"
  "min_axis0 (replicate 50 [[2, 1]]) = Inr [[2, 1]]"
  by code_simp+

theorem prepare_cube_effect_witness:
  "nb_frame (new_estimator (shape_of [[5, 1]]) [[[5, 1]], [[2, 8]]] [] [[1, 1]] [[1, 1]] [[1, 1]] 0
        (model_ADI [0, 10] [[1, 1]] None) None) = 2 \<and>
   prepare_cube (\<lambda>c a. c)
     (new_estimator (shape_of [[5, 1]]) [[[5, 1]], [[2, 8]]] [] [[1, 1]] [[1, 1]] [[1, 1]] 0
        (model_ADI [0, 10] [[1, 1]] None) None) True False =
     Inr (new_estimator (shape_of [[5, 1]]) [[[5, 1]], [[2, 8]]] [] [[1, 1]] [[1, 1]] [[1, 1]] 0
        (model_ADI [0, 10] [[1, 1]] None) None \<lparr>science_data := [[[2, 0]], [[0, 3]]]\<rparr>) \<and>
   science_data_ori (projr (prepare_cube (\<lambda>c a. c)
     (new_estimator (shape_of [[5, 1]]) [[[5, 1]], [[2, 8]]] [] [[1, 1]] [[1, 1]] [[1, 1]] 0
        (model_ADI [0, 10] [[1, 1]] None) None) False True)) = Some [[[5, 1]], [[2, 8]]]"
proof -
  let ?self = "new_estimator (shape_of [[5, 1]]) [[[5, 1]], [[2, 8]]] [] [[1, 1]] [[1, 1]] [[1, 1]] 0
        (model_ADI [0, 10] [[1, 1]] None) None"
  have f: "science_data ?self = [[[5, 1]], [[2, 8]]]" "nb_frame ?self = 2" "coro ?self = [[1, 1]]"
    by (simp_all add: new_estimator_def)
  have n: "nb_frame ?self = length (science_data ?self)" by (simp add: f)
  obtain s where s: "prepare_cube (\<lambda>c a. c) ?self False True = Inr s"
    by (simp add: prepare_cube_def decompose_def f min_axis0_examples)
  note t = prepare_cube_effect[of "\<lambda>c a. c" ?self]
  from t s have o: "science_data_ori s = Some (science_data ?self)" by blast
  from t n have m: "prepare_cube (\<lambda>c a. c) ?self True False =
        Inr (?self\<lparr>science_data :=
               map (\<lambda>fr. sub_clip fr (np_median (concat (ew (*) (coro ?self) fr))))
                 (science_data ?self)\<rparr>)" by blast
  show ?thesis
    unfolding m s by (simp add: o f median_example)
qed

text \<open>
  C3 as stated fails: with \<^verbatim>\<open>med_sub=True, min_sub=False\<close> on a cube of two frames
  \<open>(5, 1)\<close> and \<open>(2, 8)\<close> under an all-ones mask, the run stores \<open>(2, 0)\<close> and \<open>(0, 3)\<close>.
  The derotation is not called on this path; the identity stands in for it.
\<close>

theorem science_data_mutated:
  "science_data (new_estimator (shape_of [[5, 1]]) [[[5, 1]], [[2, 8]]] [] [[1, 1]] [[1, 1]]
        [[1, 1]] 0 (model_ADI [0, 10] [[1, 1]] None) None) = [[[5, 1]], [[2, 8]]] \<and>
   \<not> isl (prepare_cube (\<lambda>c a. c)
     (new_estimator (shape_of [[5, 1]]) [[[5, 1]], [[2, 8]]] [] [[1, 1]] [[1, 1]] [[1, 1]] 0
        (model_ADI [0, 10] [[1, 1]] None) None) True False) \<and>
   science_data (projr (prepare_cube (\<lambda>c a. c)
     (new_estimator (shape_of [[5, 1]]) [[[5, 1]], [[2, 8]]] [] [[1, 1]] [[1, 1]] [[1, 1]] 0
        (model_ADI [0, 10] [[1, 1]] None) None) True False)) = [[[2, 0]], [[0, 3]]]"
proof -
  let ?self = "new_estimator (shape_of [[5, 1]]) [[[5, 1]], [[2, 8]]] [] [[1, 1]] [[1, 1]] [[1, 1]] 0
        (model_ADI [0, 10] [[1, 1]] None) None"
  have f: "science_data ?self = [[[5, 1]], [[2, 8]]]" "nb_frame ?self = 2" "coro ?self = [[1, 1]]"
    by (simp_all add: new_estimator_def)
  have n: "nb_frame ?self = length (science_data ?self)" by (simp add: f)
  have "prepare_cube (\<lambda>c a. c) ?self True False =
        Inr (?self\<lparr>science_data := [[[2, 0]], [[0, 3]]]\<rparr>)"
    by (simp add: prepare_cube_def median_subtraction_frames[OF n] f median_example)
  then show ?thesis by (simp add: f)
qed

section \<open>Rotation by the angle zero\<close>

subsection \<open>The inverse transform undoes the forward one\<close>





lemma length_fft [simp]: "length (fft xs) = length xs"
  by (simp add: fft_def Let_def)

lemma length_ifft [simp]: "length (ifft xs) = length xs"
  by (simp add: ifft_def Let_def)





subsection \<open>Shifts and transforms of a frame\<close>

lemma length_fftshift [simp]: "length (fftshift xs) = length xs"
  by (simp add: fftshift_def Let_def)

lemma set_fftshift [simp]: "set (fftshift xs) = set xs"
proof -
  have "set (drop h xs @ take h xs) = set (take h xs @ drop h xs)" for h
    by (simp only: set_append Un_commute)
  then show ?thesis by (simp only: fftshift_def Let_def append_take_drop_id)
qed










subsection \<open>The shears and the rotation\<close>



lemma length_fftfreq [simp]: "length (fftfreq n) = n"
  by (simp add: fftfreq_def)















end
